theory Spec2Isabelle
  imports Main
begin

section \<open>Values of the script: parsed JSON and the engine's conversions\<close>

text \<open>
  The script \<^verbatim>\<open>static/js/data_analysis.js\<close> consumes whatever \<^verbatim>\<open>response.json()\<close>
  yields, without a schema. A value is therefore any JSON value, plus \<^verbatim>\<open>undefined\<close>,
  which reading an absent property produces. An object is the list of its own
  properties in the order \<^verbatim>\<open>Object.keys\<close> enumerates them (the keys of an object the
  engine builds are distinct). Numbers are the integers, the counts and sizes of the
  server's replies; a fractional number is outside the model. Strings are sequences of
  code units.
\<close>

datatype jsval =
  JUndefined
| JNull
| JBool bool
| JNum int
| JStr string
| JArr "jsval list"
| JObj "(string \<times> jsval) list"

text \<open>A thrown value: an error object with its name and its \<^verbatim>\<open>message\<close>.\<close>

datatype exn = Exn string string

fun message :: "exn \<Rightarrow> string" where
  "message (Exn n m) = m"

text \<open>
  The texts of the \<^verbatim>\<open>TypeError\<close>s the engine raises by itself are the engine's own; the
  ones below are V8's wording.
\<close>

definition cannot_read :: "string \<Rightarrow> string \<Rightarrow> exn" where
  "cannot_read what name =
     Exn ''TypeError'' (''Cannot read properties of '' @ what @ '' (reading '' @ [CHR 39] @ name @ [CHR 39] @ '')'')"

definition cannot_convert :: exn where
  "cannot_convert = Exn ''TypeError'' ''Cannot convert undefined or null to object''"

definition not_a_function :: "string \<Rightarrow> exn" where
  "not_a_function what = Exn ''TypeError'' (what @ '' is not a function'')"

text \<open>\<^verbatim>\<open>if (v)\<close> and \<^verbatim>\<open>!v\<close>: the falsy values are undefined, null, false, 0 and the empty string.\<close>

fun truthy :: "jsval \<Rightarrow> bool" where
  "truthy JUndefined = False"
| "truthy JNull = False"
| "truthy (JBool b) = b"
| "truthy (JNum n) = (n \<noteq> 0)"
| "truthy (JStr s) = (s \<noteq> [])"
| "truthy (JArr xs) = True"
| "truthy (JObj kvs) = True"

text \<open>
  \<^verbatim>\<open>v.name\<close> for the property names the script reads (error, filename, stats, rows,
  columns, duplicates, preview, count): a fault on undefined and null, the own property
  of an object, and undefined on every other value, none of whose prototypes has a
  property of these names.
\<close>

fun get_prop :: "string \<Rightarrow> jsval \<Rightarrow> exn + jsval" where
  "get_prop name JUndefined = Inl (cannot_read ''undefined'' name)"
| "get_prop name JNull = Inl (cannot_read ''null'' name)"
| "get_prop name (JObj kvs) = Inr (case map_of kvs name of None \<Rightarrow> JUndefined | Some v \<Rightarrow> v)"
| "get_prop name v = Inr JUndefined"

text \<open>
  The decimal text of an integer, which is what \<^verbatim>\<open>String\<close> gives for an integer below
  \<open>10\<^sup>2\<^sup>1\<close> in magnitude.
\<close>

fun show_nat :: "nat \<Rightarrow> string" where
  "show_nat n =
     (if n < 10 then [''0123456789'' ! n]
      else show_nat (n div 10) @ [''0123456789'' ! (n mod 10)])"

declare show_nat.simps [simp del]

definition show_int :: "int \<Rightarrow> string" where
  "show_int i = (if i < 0 then ''-'' @ show_nat (nat (- i)) else show_nat (nat i))"

fun join :: "string \<Rightarrow> string list \<Rightarrow> string" where
  "join sep [] = []"
| "join sep [x] = x"
| "join sep (x # y # ys) = x @ sep @ join sep (y # ys)"

text \<open>
  \<^verbatim>\<open>String(v)\<close>, which string concatenation, template literals and \<^verbatim>\<open>new Error(v)\<close> apply:
  an array joins its elements with commas (null and undefined elements as the empty
  string), a plain object is \<^verbatim>\<open>[object Object]\<close>.
\<close>

fun ToString :: "jsval \<Rightarrow> string" where
  "ToString JUndefined = ''undefined''"
| "ToString JNull = ''null''"
| "ToString (JBool b) = (if b then ''true'' else ''false'')"
| "ToString (JNum n) = show_int n"
| "ToString (JStr s) = s"
| "ToString (JArr xs) =
     join '','' (map (\<lambda>x. if x = JUndefined \<or> x = JNull then [] else ToString x) xs)"
| "ToString (JObj kvs) = ''[object Object]''"

text \<open>
  Assigning to a DOM attribute converts the value to a string. \<^verbatim>\<open>textContent\<close> is a
  nullable string attribute: null and undefined are taken as null, which the setter
  treats as the empty string. \<^verbatim>\<open>option.value\<close> is not nullable: it takes \<^verbatim>\<open>String(v)\<close>.
\<close>

definition nullable_DOMString :: "jsval \<Rightarrow> string" where
  "nullable_DOMString v = (if v = JUndefined \<or> v = JNull then [] else ToString v)"

definition DOMString :: "jsval \<Rightarrow> string" where
  "DOMString v = ToString v"

text \<open>\<^verbatim>\<open>v[0]\<close>: the first element of an array, the first code unit of a string, the
  property \<^verbatim>\<open>"0"\<close> of an object; undefined where there is none.\<close>

fun index0 :: "jsval \<Rightarrow> exn + jsval" where
  "index0 JUndefined = Inl (cannot_read ''undefined'' ''0'')"
| "index0 JNull = Inl (cannot_read ''null'' ''0'')"
| "index0 (JArr xs) = Inr (case xs of [] \<Rightarrow> JUndefined | x # _ \<Rightarrow> x)"
| "index0 (JStr s) = Inr (case s of [] \<Rightarrow> JUndefined | c # _ \<Rightarrow> JStr [c])"
| "index0 (JObj kvs) = Inr (case map_of kvs ''0'' of None \<Rightarrow> JUndefined | Some v \<Rightarrow> v)"
| "index0 v = Inr JUndefined"

text \<open>\<^verbatim>\<open>Object.keys(v)\<close> and \<^verbatim>\<open>Object.values(v)\<close>: a fault on undefined and null; the
  indices and elements of an array or string; nothing for a boolean or a number.\<close>

fun Object_keys :: "jsval \<Rightarrow> exn + string list" where
  "Object_keys JUndefined = Inl cannot_convert"
| "Object_keys JNull = Inl cannot_convert"
| "Object_keys (JObj kvs) = Inr (map fst kvs)"
| "Object_keys (JArr xs) = Inr (map show_nat [0..<length xs])"
| "Object_keys (JStr s) = Inr (map show_nat [0..<length s])"
| "Object_keys v = Inr []"

fun Object_values :: "jsval \<Rightarrow> exn + jsval list" where
  "Object_values JUndefined = Inl cannot_convert"
| "Object_values JNull = Inl cannot_convert"
| "Object_values (JObj kvs) = Inr (map snd kvs)"
| "Object_values (JArr xs) = Inr xs"
| "Object_values (JStr s) = Inr (map (\<lambda>c. JStr [c]) s)"
| "Object_values v = Inr []"

text \<open>
  \<^verbatim>\<open>JSON.stringify\<close>, as the JSON value its text denotes: a property whose value is
  undefined is left out, an undefined array element is written null.
\<close>

fun JSON_stringify :: "jsval \<Rightarrow> jsval" where
  "JSON_stringify (JArr xs) =
     JArr (map (\<lambda>x. if x = JUndefined then JNull else JSON_stringify x) xs)"
| "JSON_stringify (JObj kvs) =
     JObj (map (\<lambda>kv. (fst kv, JSON_stringify (snd kv))) (filter (\<lambda>kv. snd kv \<noteq> JUndefined) kvs))"
| "JSON_stringify v = v"

text \<open>The values \<^verbatim>\<open>JSON.parse\<close> builds: undefined occurs nowhere in them.\<close>

fun is_json :: "jsval \<Rightarrow> bool" where
  "is_json JUndefined = False"
| "is_json (JArr xs) = list_all is_json xs"
| "is_json (JObj kvs) = list_all (\<lambda>kv. is_json (snd kv)) kvs"
| "is_json v = True"

section \<open>The page: the elements the script touches, and what it emits\<close>

text \<open>An element of the document is its tag and its children; a text node is its data.\<close>

datatype node = Element string "node list" | Text string

fun children :: "node \<Rightarrow> node list" where
  "children (Element t cs) = cs"
| "children (Text s) = []"

text \<open>The \<^verbatim>\<open>textContent\<close> getter: the data of the text nodes below, in tree order.\<close>

fun textContent :: "node \<Rightarrow> string" where
  "textContent (Text s) = s"
| "textContent (Element t cs) = concat (map textContent cs)"

text \<open>
  \<^verbatim>\<open>e = document.createElement(tag); e.textContent = s\<close>: the setter gives the element
  one text node, and none for the empty string.
\<close>

definition element_with_text :: "string \<Rightarrow> string \<Rightarrow> node" where
  "element_with_text t s = Element t (if s = [] then [] else [Text s])"

text \<open>
  An \<^verbatim>\<open>option\<close> element, as the script builds it: its \<^verbatim>\<open>value\<close> attribute and its
  \<^verbatim>\<open>textContent\<close>, both as assigned.
\<close>

record option_el =
  opt_value :: string
  opt_textContent :: string

text \<open>
  The label the control shows for an option that has no \<^verbatim>\<open>label\<close> attribute (the script
  sets none) is its text with ASCII whitespace stripped and collapsed: every run of tab,
  line feed, form feed, carriage return and space becomes one space, and then the
  whitespace at both ends is removed.
\<close>

definition ascii_whitespace :: "char \<Rightarrow> bool" where
  "ascii_whitespace c =
     (c = CHR 0x09 \<or> c = CHR 0x0A \<or> c = CHR 0x0C \<or> c = CHR 0x0D \<or> c = CHR '' '')"

text \<open>The flag says that the code unit before was whitespace.\<close>

fun collapse_whitespace :: "bool \<Rightarrow> string \<Rightarrow> string" where
  "collapse_whitespace prev [] = []"
| "collapse_whitespace prev (c # cs) =
     (if ascii_whitespace c
      then (if prev then collapse_whitespace True cs else CHR '' '' # collapse_whitespace True cs)
      else c # collapse_whitespace False cs)"

definition strip_whitespace :: "string \<Rightarrow> string" where
  "strip_whitespace s = rev (dropWhile ascii_whitespace (rev (dropWhile ascii_whitespace s)))"

definition strip_and_collapse :: "string \<Rightarrow> string" where
  "strip_and_collapse s = strip_whitespace (collapse_whitespace False s)"

definition option_label :: "option_el \<Rightarrow> string" where
  "option_label opt = strip_and_collapse (opt_textContent opt)"

text \<open>A word: a non-empty string without ASCII whitespace.\<close>

definition is_word :: "string \<Rightarrow> bool" where
  "is_word w = (w \<noteq> [] \<and> list_all (\<lambda>c. \<not> ascii_whitespace c) w)"

text \<open>
  The column selector \<^verbatim>\<open>dupeColumn\<close>, a drop-down list: its options and the index of
  the selected one. Its \<^verbatim>\<open>value\<close> is the value of the selected option, and the empty
  string when there is none.
\<close>

record select_el =
  sel_options :: "option_el list"
  sel_selected :: "nat option"

definition select_value :: "select_el \<Rightarrow> string" where
  "select_value sel =
     (case sel_selected sel of
        None \<Rightarrow> []
      | Some i \<Rightarrow> (if i < length (sel_options sel) then opt_value (sel_options sel ! i) else []))"

text \<open>\<^verbatim>\<open>select.appendChild(option)\<close>: the option comes last; a drop-down list with no
  selected option selects its first one.\<close>

definition select_appendChild :: "option_el \<Rightarrow> select_el \<Rightarrow> select_el" where
  "select_appendChild opt sel =
     sel\<lparr>sel_options := sel_options sel @ [opt],
         sel_selected := (case sel_selected sel of None \<Rightarrow> Some 0 | Some i \<Rightarrow> Some i)\<rparr>"

text \<open>A selected file, by its name.\<close>

datatype file_obj = File string

text \<open>What \<^verbatim>\<open>fetch\<close> is called with.\<close>

datatype body = FormData "(string \<times> file_obj) list" | JsonText jsval

record request =
  req_url :: string
  req_method :: string
  req_headers :: "(string \<times> string) list"
  req_body :: body

text \<open>
  What the two awaits of a handler yield: the promise of \<^verbatim>\<open>fetch\<close> rejects, or the
  promise of \<^verbatim>\<open>response.json()\<close> rejects (the body is not JSON), or the body parses to a
  value.
\<close>

datatype fetch_result = Rejected exn | BadJson exn | Json jsval

text \<open>
  The state the handlers read and write: the file selection, the closure variable
  \<^verbatim>\<open>currentData\<close>, the text of the three display elements, the column selector, the
  children of the preview table, the \<^verbatim>\<open>display\<close> style of the results section; and what
  the handlers emit, oldest first: the alerts shown, the errors logged to the console, the
  requests issued.
\<close>

record page =
  fileInput_files :: "file_obj list"
  currentData :: jsval
  filename_text :: string
  dimensions_text :: string
  dupeCount_text :: string
  dupeColumn :: select_el
  previewTable :: "node list"
  resultsSection_display :: string
  alerts :: "string list"
  console :: "exn list"
  requests :: "request list"

text \<open>
  A statement of the script runs on the page and either completes or throws; what it
  wrote before throwing stays written.
\<close>

type_synonym eff = "page \<Rightarrow> exn option \<times> page"

definition seq :: "eff \<Rightarrow> eff \<Rightarrow> eff" where
  "seq f g s = (case f s of (None, s') \<Rightarrow> g s' | (Some e, s') \<Rightarrow> (Some e, s'))"

definition reading :: "exn + 'a \<Rightarrow> ('a \<Rightarrow> eff) \<Rightarrow> eff" where
  "reading r k s = (case r of Inl e \<Rightarrow> (Some e, s) | Inr v \<Rightarrow> k v s)"

definition assign :: "(page \<Rightarrow> page) \<Rightarrow> eff" where
  "assign f s = (None, f s)"

definition throw_exn :: "exn \<Rightarrow> eff" where
  "throw_exn e s = (Some e, s)"

definition alert :: "string \<Rightarrow> page \<Rightarrow> page" where
  "alert msg s = s\<lparr>alerts := alerts s @ [msg]\<rparr>"

definition console_error :: "exn \<Rightarrow> page \<Rightarrow> page" where
  "console_error e s = s\<lparr>console := console s @ [e]\<rparr>"

definition fetch :: "request \<Rightarrow> page \<Rightarrow> page" where
  "fetch r s = s\<lparr>requests := requests s @ [r]\<rparr>"

section \<open>The functions of the script\<close>

text \<open>
  \<^verbatim>\<open>displayFileInfo(data)\<close>: three assignments in order; the template literal reads
  \<^verbatim>\<open>data.stats\<close> before the second assignment, and writes the multiplication sign
  (code unit D7) between the two sizes.
\<close>

definition displayFileInfo :: "jsval \<Rightarrow> eff" where
  "displayFileInfo data =
     reading (get_prop ''filename'' data) (\<lambda>fn.
     seq (assign (\<lambda>s. s\<lparr>filename_text := nullable_DOMString fn\<rparr>))
     (reading (get_prop ''stats'' data) (\<lambda>st1.
      reading (get_prop ''rows'' st1) (\<lambda>rows.
      reading (get_prop ''stats'' data) (\<lambda>st2.
      reading (get_prop ''columns'' st2) (\<lambda>cols.
     seq (assign (\<lambda>s. s\<lparr>dimensions_text :=
            ToString rows @ '' rows '' @ [CHR 0xD7] @ '' '' @ ToString cols @ '' columns''\<rparr>))
     (reading (get_prop ''stats'' data) (\<lambda>st3.
      reading (get_prop ''duplicates'' st3) (\<lambda>d.
      assign (\<lambda>s. s\<lparr>dupeCount_text := nullable_DOMString d\<rparr>))))))))))"

text \<open>
  \<^verbatim>\<open>populateColumnSelect(columns)\<close>: the selector is emptied first; then
  \<^verbatim>\<open>columns.forEach\<close>, which only an array has, appends one option per entry.
\<close>

definition new_option :: "jsval \<Rightarrow> option_el" where
  "new_option col = \<lparr>opt_value = DOMString col, opt_textContent = nullable_DOMString col\<rparr>"

definition populateColumnSelect :: "jsval \<Rightarrow> eff" where
  "populateColumnSelect columns =
     seq (assign (\<lambda>s. s\<lparr>dupeColumn := \<lparr>sel_options = [], sel_selected = None\<rparr>\<rparr>))
     (case columns of
        JArr cs \<Rightarrow>
          assign (\<lambda>s. s\<lparr>dupeColumn :=
            fold (\<lambda>col sel. select_appendChild (new_option col) sel) cs (dupeColumn s)\<rparr>)
      | JUndefined \<Rightarrow> throw_exn (cannot_read ''undefined'' ''forEach'')
      | JNull \<Rightarrow> throw_exn (cannot_read ''null'' ''forEach'')
      | _ \<Rightarrow> throw_exn (not_a_function ''columns.forEach''))"

text \<open>
  \<^verbatim>\<open>displayPreview(previewData)\<close>. The table is emptied first. The header row has one
  \<^verbatim>\<open>th\<close> per key of \<^verbatim>\<open>previewData[0]\<close> and is appended, inside a \<^verbatim>\<open>thead\<close>, before the
  body is built. The body has one \<^verbatim>\<open>tr\<close> per row, with one \<^verbatim>\<open>td\<close> per value of the row;
  the \<^verbatim>\<open>tbody\<close> is appended after the loop, so a row that faults leaves the table with
  its header only.
\<close>

definition header_cell :: "string \<Rightarrow> node" where
  "header_cell col = element_with_text ''th'' col"

definition body_cell :: "jsval \<Rightarrow> node" where
  "body_cell v = element_with_text ''td'' (nullable_DOMString v)"

fun body_rows :: "jsval list \<Rightarrow> exn + node list" where
  "body_rows [] = Inr []"
| "body_rows (row # rows) =
     (case Object_values row of
        Inl e \<Rightarrow> Inl e
      | Inr vs \<Rightarrow>
          (case body_rows rows of
             Inl e \<Rightarrow> Inl e
           | Inr trs \<Rightarrow> Inr (Element ''tr'' (map body_cell vs) # trs)))"

definition forEach_row :: "jsval \<Rightarrow> exn + node list" where
  "forEach_row previewData =
     (case previewData of
        JArr rows \<Rightarrow> body_rows rows
      | JUndefined \<Rightarrow> Inl (cannot_read ''undefined'' ''forEach'')
      | JNull \<Rightarrow> Inl (cannot_read ''null'' ''forEach'')
      | _ \<Rightarrow> Inl (not_a_function ''previewData.forEach''))"

definition table_appendChild :: "node \<Rightarrow> page \<Rightarrow> page" where
  "table_appendChild n s = s\<lparr>previewTable := previewTable s @ [n]\<rparr>"

definition displayPreview :: "jsval \<Rightarrow> eff" where
  "displayPreview previewData =
     seq (assign (\<lambda>s. s\<lparr>previewTable := []\<rparr>))
     (reading (index0 previewData) (\<lambda>first.
      reading (Object_keys first) (\<lambda>keys.
     seq (assign (table_appendChild (Element ''thead'' [Element ''tr'' (map header_cell keys)])))
     (reading (forEach_row previewData) (\<lambda>trs.
      assign (table_appendChild (Element ''tbody'' trs)))))))"

text \<open>
  The two awaits of a handler, \<^verbatim>\<open>await fetch(...)\<close> and \<^verbatim>\<open>await response.json()\<close>: a
  rejection is thrown into the handler's \<^verbatim>\<open>try\<close> block. A handler takes what its awaits
  yield as an argument and runs to its end: no other handler runs between its request
  and the reply, and a reply that never comes is not modelled.
\<close>

definition await_json :: "fetch_result \<Rightarrow> (jsval \<Rightarrow> eff) \<Rightarrow> eff" where
  "await_json resp k =
     (case resp of
        Rejected e \<Rightarrow> throw_exn e
      | BadJson e \<Rightarrow> throw_exn e
      | Json data \<Rightarrow> k data)"

text \<open>\<^verbatim>\<open>if (data.error) throw new Error(data.error)\<close>, then the rest of the block.\<close>

definition check_error :: "jsval \<Rightarrow> eff \<Rightarrow> eff" where
  "check_error data rest =
     reading (get_prop ''error'' data) (\<lambda>err.
       if truthy err then throw_exn (Exn ''Error'' (ToString err)) else rest)"

text \<open>
  \<^verbatim>\<open>try { body } catch (error) { console.error('Error:', error); alert(prefix + error.message) }\<close>
\<close>

definition try_catch :: "string \<Rightarrow> eff \<Rightarrow> page \<Rightarrow> page" where
  "try_catch prefix block s =
     (case block s of
        (None, s') \<Rightarrow> s'
      | (Some e, s') \<Rightarrow> alert (prefix @ message e) (console_error e s'))"

text \<open>\<^verbatim>\<open>uploadFile()\<close>: the \<^verbatim>\<open>try\<close> block, and the handler around it.\<close>

definition upload_request :: "file_obj \<Rightarrow> request" where
  "upload_request f =
     \<lparr>req_url = ''/data/upload'', req_method = ''POST'', req_headers = [],
      req_body = FormData [(''file'', f)]\<rparr>"

definition uploadFile_try :: "file_obj \<Rightarrow> fetch_result \<Rightarrow> eff" where
  "uploadFile_try f resp =
     seq (assign (fetch (upload_request f)))
     (await_json resp (\<lambda>data.
      check_error data
     (seq (assign (\<lambda>s. s\<lparr>currentData := data\<rparr>))
     (seq (displayFileInfo data)
     (reading (get_prop ''columns'' data) (\<lambda>columns.
     seq (populateColumnSelect columns)
     (reading (get_prop ''preview'' data) (\<lambda>preview.
     seq (displayPreview preview)
     (assign (\<lambda>s. s\<lparr>resultsSection_display := ''block''\<rparr>))))))))))"

definition uploadFile :: "fetch_result \<Rightarrow> page \<Rightarrow> page" where
  "uploadFile resp s =
     (case fileInput_files s of
        [] \<Rightarrow> alert ''Please select a file first'' s
      | f # _ \<Rightarrow> try_catch ''Error processing file: '' (uploadFile_try f resp) s)"

text \<open>
  \<^verbatim>\<open>findDuplicates()\<close>: nothing while \<^verbatim>\<open>currentData\<close> is falsy; the selector's value is read
  before the \<^verbatim>\<open>try\<close> block, \<^verbatim>\<open>currentData.preview\<close> inside it, when the request is built.
\<close>

definition duplicates_request :: "jsval \<Rightarrow> string \<Rightarrow> request" where
  "duplicates_request preview column =
     \<lparr>req_url = ''/data/find_duplicates'', req_method = ''POST'',
      req_headers = [(''Content-Type'', ''application/json'')],
      req_body = JsonText (JSON_stringify (JObj [(''data'', preview), (''column'', JStr column)]))\<rparr>"

definition findDuplicates_try :: "string \<Rightarrow> fetch_result \<Rightarrow> eff" where
  "findDuplicates_try column resp s =
     reading (get_prop ''preview'' (currentData s)) (\<lambda>preview.
     seq (assign (fetch (duplicates_request preview column)))
     (await_json resp (\<lambda>data.
      check_error data
     (reading (get_prop ''count'' data) (\<lambda>count.
     seq (assign (alert (''Found '' @ ToString count @ '' duplicate entries'')))
     (reading (get_prop ''duplicates'' data) (\<lambda>duplicates.
      displayPreview duplicates))))))) s"

definition findDuplicates :: "fetch_result \<Rightarrow> page \<Rightarrow> page" where
  "findDuplicates resp s =
     (if \<not> truthy (currentData s) then s
      else try_catch ''Error finding duplicates: ''
             (findDuplicates_try (select_value (dupeColumn s)) resp) s)"

text \<open>The page as it loads: no file chosen, \<^verbatim>\<open>currentData = null\<close>, nothing rendered,
  the results section hidden.\<close>

definition page_loaded :: page where
  "page_loaded =
     \<lparr>fileInput_files = [], currentData = JNull, filename_text = [], dimensions_text = [],
      dupeCount_text = [], dupeColumn = \<lparr>sel_options = [], sel_selected = None\<rparr>,
      previewTable = [], resultsSection_display = ''none'', alerts = [], console = [],
      requests = []\<rparr>"

text \<open>A reply of the upload endpoint for a file of three rows, and the page after it.\<close>

definition sample_upload :: jsval where
  "sample_upload =
     JObj [(''filename'', JStr ''sales.csv''),
           (''columns'', JArr [JStr ''id'', JStr ''city'']),
           (''stats'', JObj [(''rows'', JNum 3), (''columns'', JNum 2), (''duplicates'', JNum 1)]),
           (''preview'', JArr [JObj [(''id'', JNum 1), (''city'', JStr ''Oslo'')],
                               JObj [(''id'', JNum 2), (''city'', JStr ''Rome'')],
                               JObj [(''id'', JNum 3), (''city'', JStr ''Oslo'')]])]"

definition page_ready :: page where
  "page_ready =
     uploadFile (Json sample_upload) (page_loaded\<lparr>fileInput_files := [File ''sales.csv'']\<rparr>)"

definition sample_empty_upload :: jsval where
  "sample_empty_upload =
     JObj [(''filename'', JStr ''empty.csv''),
           (''columns'', JArr [JStr ''id'', JStr ''city'']),
           (''stats'', JObj [(''rows'', JNum 0), (''columns'', JNum 2), (''duplicates'', JNum 0)]),
           (''preview'', JArr [])]"

section \<open>Facts about the conversions and the rendering functions\<close>

lemmas effs = seq_def reading_def assign_def throw_exn_def

lemma is_json_defined: "is_json v \<Longrightarrow> v \<noteq> JUndefined"
  by (cases v) simp_all

lemma JSON_stringify_id: "is_json v \<Longrightarrow> JSON_stringify v = v"
proof (induction v)
  case (JArr xs)
  have "map (\<lambda>x. if x = JUndefined then JNull else JSON_stringify x) xs = xs"
  proof (rule map_idI)
    fix x assume x: "x \<in> set xs"
    with JArr.prems have j: "is_json x" by (simp add: list_all_iff)
    from JArr.IH [OF x j] is_json_defined [OF j]
    show "(if x = JUndefined then JNull else JSON_stringify x) = x" by simp
  qed
  then show ?case by simp
next
  case (JObj kvs)
  have all: "\<And>kv. kv \<in> set kvs \<Longrightarrow> is_json (snd kv)"
    using JObj.prems by (simp add: list_all_iff)
  have keep: "filter (\<lambda>kv. snd kv \<noteq> JUndefined) kvs = kvs"
    by (rule filter_True) (simp add: all is_json_defined)
  have "map (\<lambda>kv. (fst kv, JSON_stringify (snd kv))) kvs = kvs"
  proof (rule map_idI)
    fix kv assume kv: "kv \<in> set kvs"
    have "snd kv \<in> Basic_BNFs.snds kv" by (cases kv) simp
    from JObj.IH [OF kv this all [OF kv]]
    show "(fst kv, JSON_stringify (snd kv)) = kv" by simp
  qed
  with keep show ?case by simp
qed simp_all

lemma get_prop_is_json:
  "is_json d \<Longrightarrow> get_prop name d = Inr p \<Longrightarrow> p = JUndefined \<or> is_json p"
proof (cases d)
  case (JObj kvs)
  assume j: "is_json d" and g: "get_prop name d = Inr p"
  show ?thesis
  proof (cases "map_of kvs name")
    case None
    with g JObj show ?thesis by simp
  next
    case (Some v)
    then have "(name, v) \<in> set kvs" by (rule map_of_SomeD)
    with j JObj have "is_json v" by (auto simp: list_all_iff)
    with g JObj Some show ?thesis by simp
  qed
qed auto

lemma displayPreview_frame: "\<exists>t. snd (displayPreview d s) = s\<lparr>previewTable := t\<rparr>"
  by (auto simp: displayPreview_def effs table_appendChild_def split: sum.splits)

lemma displayPreview_nil:
  "displayPreview (JArr []) s = (Some cannot_convert, s\<lparr>previewTable := []\<rparr>)"
  by (simp add: displayPreview_def effs)

lemma fold_select_appendChild:
  "fold (\<lambda>col sel. select_appendChild (new_option col) sel) cs (sel :: select_el) =
     \<lparr>sel_options = sel_options sel @ map new_option cs,
      sel_selected = (if cs = [] then sel_selected sel
                      else case sel_selected sel of None \<Rightarrow> Some 0 | Some i \<Rightarrow> Some i)\<rparr>"
proof (induction cs arbitrary: sel)
  case Nil
  show ?case by simp
next
  case (Cons c cs)
  show ?case
  proof -
    have "fold (\<lambda>col sel. select_appendChild (new_option col) sel) (c # cs) sel =
          fold (\<lambda>col sel. select_appendChild (new_option col) sel) cs
            (select_appendChild (new_option c) sel)"
      by simp
    also have "\<dots> =
        \<lparr>sel_options = sel_options (select_appendChild (new_option c) sel) @ map new_option cs,
         sel_selected = (if cs = [] then sel_selected (select_appendChild (new_option c) sel)
                         else case sel_selected (select_appendChild (new_option c) sel) of
                                None \<Rightarrow> Some 0 | Some i \<Rightarrow> Some i)\<rparr>"
      by (rule Cons.IH)
    also have "\<dots> =
        \<lparr>sel_options = sel_options sel @ map new_option (c # cs),
         sel_selected = (if c # cs = [] then sel_selected sel
                         else case sel_selected sel of None \<Rightarrow> Some 0 | Some i \<Rightarrow> Some i)\<rparr>"
      by (cases "sel_selected sel") (simp_all add: select_appendChild_def)
    finally show ?thesis .
  qed
qed

lemma populateColumnSelect_array:
  "populateColumnSelect (JArr cs) s =
     (None, s\<lparr>dupeColumn := \<lparr>sel_options = map new_option cs,
                               sel_selected = (if cs = [] then None else Some 0)\<rparr>\<rparr>)"
  by (simp add: populateColumnSelect_def effs fold_select_appendChild)

lemma new_option_string: "new_option (JStr n) = \<lparr>opt_value = n, opt_textContent = n\<rparr>"
  by (simp add: new_option_def DOMString_def nullable_DOMString_def)

lemma collapse_word_prefix:
  "list_all (\<lambda>c. \<not> ascii_whitespace c) w \<Longrightarrow> w \<noteq> [] \<Longrightarrow>
     collapse_whitespace b (w @ rest) = w @ collapse_whitespace False rest"
proof (induction w arbitrary: b)
  case Nil
  then show ?case by simp
next
  case (Cons c w)
  show ?case
  proof (cases "w = []")
    case True
    with Cons.prems show ?thesis by simp
  next
    case False
    with Cons.prems Cons.IH [of False] show ?thesis by simp
  qed
qed

lemma collapse_word:
  "is_word w \<Longrightarrow> collapse_whitespace b w = w"
  using collapse_word_prefix [of w b "[]"] by (simp add: is_word_def)

lemma word_ends:
  "is_word w \<Longrightarrow> \<not> ascii_whitespace (hd w) \<and> \<not> ascii_whitespace (last w)"
  by (auto simp: is_word_def list_all_iff)

lemma join_words_ends:
  "list_all is_word ws \<Longrightarrow> ws \<noteq> [] \<Longrightarrow>
     join '' '' ws \<noteq> [] \<and> \<not> ascii_whitespace (hd (join '' '' ws))
     \<and> \<not> ascii_whitespace (last (join '' '' ws))"
proof (induction ws rule: induct_list012)
  case 1
  then show ?case by simp
next
  case (2 x)
  then show ?case using word_ends [of x] by (simp add: is_word_def)
next
  case (3 x y zs)
  from "3.prems" have xw: "is_word x" and rest: "list_all is_word (y # zs)" by simp_all
  from "3.IH"(2) [OF rest] have j: "join '' '' (y # zs) \<noteq> []"
    and l: "\<not> ascii_whitespace (last (join '' '' (y # zs)))" by simp_all
  from xw word_ends [OF xw] have "x \<noteq> []" "\<not> ascii_whitespace (hd x)"
    by (simp_all add: is_word_def)
  with j l show ?case by simp
qed

lemma collapse_words:
  "list_all is_word ws \<Longrightarrow> collapse_whitespace b (join '' '' ws) = join '' '' ws"
proof (induction ws arbitrary: b rule: induct_list012)
  case 1
  show ?case by simp
next
  case (2 x)
  then show ?case by (simp add: collapse_word)
next
  case (3 x y zs)
  from "3.prems" have xw: "is_word x" and rest: "list_all is_word (y # zs)" by simp_all
  from xw have x: "list_all (\<lambda>c. \<not> ascii_whitespace c) x" "x \<noteq> []"
    by (simp_all add: is_word_def)
  have t: "collapse_whitespace True (join '' '' (y # zs)) = join '' '' (y # zs)"
    by (rule "3.IH"(2) [OF rest])
  have "collapse_whitespace b (x @ '' '' @ join '' '' (y # zs))
        = x @ collapse_whitespace False ('' '' @ join '' '' (y # zs))"
    by (rule collapse_word_prefix [OF x])
  also have "\<dots> = x @ '' '' @ join '' '' (y # zs)"
    using t by (simp add: ascii_whitespace_def)
  finally show ?case by simp
qed

lemma strip_whitespace_id:
  assumes "s \<noteq> []" and "\<not> ascii_whitespace (hd s)" and "\<not> ascii_whitespace (last s)"
  shows "strip_whitespace s = s"
proof -
  from assms(1,2) have a: "dropWhile ascii_whitespace s = s"
    by (cases s) simp_all
  from assms(1,3) have "dropWhile ascii_whitespace (rev s) = rev s"
    by (cases s rule: rev_cases) simp_all
  with a show ?thesis by (simp add: strip_whitespace_def)
qed

lemma strip_and_collapse_words:
  "list_all is_word ws \<Longrightarrow> strip_and_collapse (join '' '' ws) = join '' '' ws"
proof (cases "ws = []")
  case True
  then show ?thesis by (simp add: strip_and_collapse_def strip_whitespace_def)
next
  case False
  assume w: "list_all is_word ws"
  from join_words_ends [OF w False] have "strip_whitespace (join '' '' ws) = join '' '' ws"
    by (intro strip_whitespace_id) simp_all
  then show ?thesis by (simp add: strip_and_collapse_def collapse_words [OF w])
qed

lemma uploadFile_error_state:
  assumes "fileInput_files s = f # fs" and "get_prop ''error'' d = Inr err" and "truthy err"
  shows "uploadFile (Json d) s =
           s\<lparr>alerts := alerts s @ [''Error processing file: '' @ ToString err],
             console := console s @ [Exn ''Error'' (ToString err)],
             requests := requests s @ [upload_request f]\<rparr>"
  using assms
  by (simp add: uploadFile_def uploadFile_try_def try_catch_def await_json_def check_error_def
      effs alert_def console_error_def fetch_def)

lemma body_rows_records:
  "body_rows (map JObj recs) =
     Inr (map (\<lambda>r. Element ''tr'' (map body_cell (map snd r))) recs)"
  by (induction recs) simp_all

lemma textContent_element_with_text: "textContent (element_with_text t x) = x"
  by (simp add: element_with_text_def)

lemma displayPreview_records:
  "displayPreview (JArr (map JObj (r # rs))) s =
     (None, s\<lparr>previewTable :=
        [Element ''thead'' [Element ''tr'' (map header_cell (map fst r))],
         Element ''tbody'' (map (\<lambda>r. Element ''tr'' (map body_cell (map snd r))) (r # rs))]\<rparr>)"
proof -
  have rows: "forEach_row (JArr (map JObj (r # rs))) =
      Inr (map (\<lambda>r. Element ''tr'' (map body_cell (map snd r))) (r # rs))"
    unfolding forEach_row_def using body_rows_records [of "r # rs"] by simp
  show ?thesis
    unfolding displayPreview_def seq_def reading_def rows
    by (simp add: assign_def table_appendChild_def)
qed

lemmas displayPreview_records_Cons = displayPreview_records [unfolded list.map(2)]

lemma displayPreview_requests: "requests (snd (displayPreview d s)) = requests s"
  using displayPreview_frame [of d s] by auto

lemma displayPreview_alerts: "alerts (snd (displayPreview d s)) = alerts s"
  using displayPreview_frame [of d s] by auto

lemma truthy_get_prop: "truthy d \<Longrightarrow> \<exists>p. get_prop name d = Inr p"
  by (cases d) simp_all

lemma findDuplicates_try_requests:
  assumes "get_prop ''preview'' (currentData s) = Inr p"
  shows "requests (snd (findDuplicates_try col resp s)) = requests s @ [duplicates_request p col]"
proof (cases resp)
  case (Json d)
  show ?thesis
  proof (cases "get_prop ''error'' d")
    case (Inl e)
    with Json assms show ?thesis
      by (simp add: findDuplicates_try_def await_json_def check_error_def effs fetch_def)
  next
    case (Inr err)
    then obtain c where c: "get_prop ''count'' d = Inr c"
      by (cases d) simp_all
    from Inr obtain ds where ds: "get_prop ''duplicates'' d = Inr ds"
      by (cases d) simp_all
    show ?thesis
    proof (cases "truthy err")
      case True
      with Json assms Inr show ?thesis
        by (simp add: findDuplicates_try_def await_json_def check_error_def effs fetch_def)
    next
      case False
      have "findDuplicates_try col resp s =
              displayPreview ds
                (alert (''Found '' @ ToString c @ '' duplicate entries'')
                   (fetch (duplicates_request p col) s))"
        using Json assms Inr False c ds
        by (simp add: findDuplicates_try_def await_json_def check_error_def effs)
      then show ?thesis
        by (simp add: displayPreview_requests alert_def fetch_def)
    qed
  qed
qed (simp_all add: assms findDuplicates_try_def await_json_def effs fetch_def)

lemma try_catch_requests: "requests (try_catch prefix block s) = requests (snd (block s))"
  by (simp add: try_catch_def alert_def console_error_def split: prod.split option.split)

lemma stringified_body:
  assumes "p = JUndefined \<or> is_json p"
  shows "get_prop ''data'' (JSON_stringify (JObj [(''data'', p), (''column'', JStr c)])) = Inr p
       \<and> get_prop ''column'' (JSON_stringify (JObj [(''data'', p), (''column'', JStr c)])) = Inr (JStr c)"
  using assms by (auto simp: JSON_stringify_id)

lemma show_nat_digit: "n < 10 \<Longrightarrow> show_nat n = [''0123456789'' ! n]"
  by (simp add: show_nat.simps)

lemma uploadFile_after_checks:
  assumes "fileInput_files s = f # fs"
    and "get_prop ''error'' d = Inr err" and "\<not> truthy err"
    and "get_prop ''filename'' d = Inr fn"
    and "get_prop ''stats'' d = Inr st"
    and "get_prop ''rows'' st = Inr rows"
    and "get_prop ''columns'' st = Inr cols"
    and "get_prop ''duplicates'' st = Inr dup"
    and "get_prop ''columns'' d = Inr (JArr cs)"
    and "get_prop ''preview'' d = Inr pv"
  shows "uploadFile (Json d) s =
     try_catch ''Error processing file: ''
       (seq (displayPreview pv) (assign (\<lambda>s. s\<lparr>resultsSection_display := ''block''\<rparr>)))
       (s\<lparr>requests := requests s @ [upload_request f],
          currentData := d,
          filename_text := nullable_DOMString fn,
          dimensions_text := ToString rows @ '' rows '' @ [CHR 0xD7] @ '' '' @ ToString cols @ '' columns'',
          dupeCount_text := nullable_DOMString dup,
          dupeColumn := \<lparr>sel_options = map new_option cs,
                         sel_selected = (if cs = [] then None else Some 0)\<rparr>\<rparr>)"
  using assms
  by (simp add: uploadFile_def uploadFile_try_def try_catch_def await_json_def check_error_def
      displayFileInfo_def populateColumnSelect_array effs fetch_def)

lemma page_ready_eq:
  "page_ready =
    \<lparr>fileInput_files = [File ''sales.csv''], currentData = sample_upload,
     filename_text = ''sales.csv'',
     dimensions_text = ''3 rows '' @ [CHR 0xD7] @ '' 2 columns'',
     dupeCount_text = ''1'',
     dupeColumn = \<lparr>sel_options = [\<lparr>opt_value = ''id'', opt_textContent = ''id''\<rparr>,
                                  \<lparr>opt_value = ''city'', opt_textContent = ''city''\<rparr>],
                   sel_selected = Some 0\<rparr>,
     previewTable =
       [Element ''thead'' [Element ''tr'' [Element ''th'' [Text ''id''], Element ''th'' [Text ''city'']]],
        Element ''tbody''
          [Element ''tr'' [Element ''td'' [Text ''1''], Element ''td'' [Text ''Oslo'']],
           Element ''tr'' [Element ''td'' [Text ''2''], Element ''td'' [Text ''Rome'']],
           Element ''tr'' [Element ''td'' [Text ''3''], Element ''td'' [Text ''Oslo'']]]],
     resultsSection_display = ''block'', alerts = [], console = [],
     requests = [upload_request (File ''sales.csv'')]\<rparr>"
  by (simp add: page_ready_def uploadFile_def uploadFile_try_def page_loaded_def sample_upload_def
      try_catch_def await_json_def check_error_def fetch_def effs
      displayFileInfo_def populateColumnSelect_def displayPreview_def table_appendChild_def
      forEach_row_def header_cell_def body_cell_def element_with_text_def nullable_DOMString_def
      DOMString_def new_option_def select_appendChild_def show_int_def show_nat_digit)

lemma uploadFile_empty_preview_state:
  assumes "fileInput_files s = f # fs"
    and "get_prop ''error'' d = Inr JUndefined"
    and "get_prop ''filename'' d = Inr fn"
    and "get_prop ''stats'' d = Inr st"
    and "get_prop ''rows'' st = Inr rows"
    and "get_prop ''columns'' st = Inr cols"
    and "get_prop ''duplicates'' st = Inr dup"
    and "get_prop ''columns'' d = Inr (JArr cs)"
    and "get_prop ''preview'' d = Inr (JArr [])"
  shows "uploadFile (Json d) s =
       s\<lparr>requests := requests s @ [upload_request f],
         currentData := d,
         filename_text := nullable_DOMString fn,
         dimensions_text := ToString rows @ '' rows '' @ [CHR 0xD7] @ '' '' @ ToString cols @ '' columns'',
         dupeCount_text := nullable_DOMString dup,
         dupeColumn := \<lparr>sel_options = map new_option cs,
                        sel_selected = (if cs = [] then None else Some 0)\<rparr>,
         previewTable := [],
         console := console s @ [Exn ''TypeError'' ''Cannot convert undefined or null to object''],
         alerts := alerts s @ [''Error processing file: Cannot convert undefined or null to object'']\<rparr>"
proof -
  have falsy: "\<not> truthy JUndefined" by simp
  show ?thesis
    unfolding uploadFile_after_checks [OF assms(1,2) falsy assms(3-9)]
    by (simp add: try_catch_def seq_def displayPreview_nil cannot_convert_def alert_def
        console_error_def)
qed

lemma findDuplicates_early_failure:
  assumes cd: "truthy (currentData s)"
    and early: "resp = Rejected e \<or> resp = BadJson e
         \<or> (\<exists>d err. resp = Json d \<and> get_prop ''error'' d = Inr err \<and> truthy err
                      \<and> e = Exn ''Error'' (ToString err))"
  shows "\<exists>p. findDuplicates resp s =
           s\<lparr>requests := requests s @ [duplicates_request p (select_value (dupeColumn s))],
             console := console s @ [e],
             alerts := alerts s @ [''Error finding duplicates: '' @ message e]\<rparr>"
proof -
  from cd obtain p where p: "get_prop ''preview'' (currentData s) = Inr p"
    using truthy_get_prop by blast
  let ?col = "select_value (dupeColumn s)"
  have "findDuplicates_try ?col resp s =
       (Some e, s\<lparr>requests := requests s @ [duplicates_request p ?col]\<rparr>)"
    using early
  proof (elim disjE exE conjE)
    assume "resp = Rejected e"
    then show ?thesis
      by (simp add: findDuplicates_try_def p await_json_def effs fetch_def)
  next
    assume "resp = BadJson e"
    then show ?thesis
      by (simp add: findDuplicates_try_def p await_json_def effs fetch_def)
  next
    fix d err
    assume "resp = Json d" "get_prop ''error'' d = Inr err" "truthy err"
      "e = Exn ''Error'' (ToString err)"
    then show ?thesis
      by (simp add: findDuplicates_try_def p await_json_def check_error_def effs fetch_def)
  qed
  with cd have "findDuplicates resp s =
           s\<lparr>requests := requests s @ [duplicates_request p ?col],
             console := console s @ [e],
             alerts := alerts s @ [''Error finding duplicates: '' @ message e]\<rparr>"
    by (simp add: findDuplicates_def try_catch_def alert_def console_error_def)
  then show ?thesis by (rule exI [of _ p])
qed

lemma findDuplicates_empty_list:
  "findDuplicates (Json (JObj [(''count'', JNum 0), (''duplicates'', JArr [])])) page_ready =
     page_ready\<lparr>
       requests := requests page_ready @ [duplicates_request
           (JArr [JObj [(''id'', JNum 1), (''city'', JStr ''Oslo'')],
                  JObj [(''id'', JNum 2), (''city'', JStr ''Rome'')],
                  JObj [(''id'', JNum 3), (''city'', JStr ''Oslo'')]]) ''id''],
       alerts := [''Found 0 duplicate entries'',
                  ''Error finding duplicates: Cannot convert undefined or null to object''],
       previewTable := [],
       console := [Exn ''TypeError'' ''Cannot convert undefined or null to object'']\<rparr>"
  by (simp add: findDuplicates_def findDuplicates_try_def page_ready_eq sample_upload_def
      select_value_def try_catch_def await_json_def check_error_def effs fetch_def alert_def
      console_error_def displayPreview_nil cannot_convert_def show_int_def show_nat_digit)

lemma findDuplicates_renders_duplicates:
  assumes "truthy (currentData s)"
    and "get_prop ''error'' d = Inr err" and "\<not> truthy err"
    and "get_prop ''count'' d = Inr n"
    and "get_prop ''duplicates'' d = Inr (JArr (map JObj (r # rs)))"
  shows "alerts (findDuplicates (Json d) s)
           = alerts s @ [''Found '' @ ToString n @ '' duplicate entries'']
       \<and> previewTable (findDuplicates (Json d) s) =
           [Element ''thead'' [Element ''tr'' (map header_cell (map fst r))],
            Element ''tbody'' (map (\<lambda>r. Element ''tr'' (map body_cell (map snd r))) (r # rs))]
       \<and> console (findDuplicates (Json d) s) = console s"
proof -
  from assms(1) obtain p where p: "get_prop ''preview'' (currentData s) = Inr p"
    using truthy_get_prop by blast
  have "findDuplicates_try (select_value (dupeColumn s)) (Json d) s =
          displayPreview (JArr (map JObj (r # rs)))
            (alert (''Found '' @ ToString n @ '' duplicate entries'')
               (fetch (duplicates_request p (select_value (dupeColumn s))) s))"
    using assms(2-5) p
    by (simp add: findDuplicates_try_def await_json_def check_error_def effs)
  then show ?thesis
    using assms(1)
    by (simp add: findDuplicates_def try_catch_def displayPreview_records_Cons alert_def fetch_def)
qed

lemma findDuplicates_renders_duplicates_witness:
  "truthy (currentData page_ready)
   \<and> alerts (findDuplicates (Json (JObj [(''count'', JNum 2),
        (''duplicates'', JArr (map JObj [[(''id'', JNum 1), (''city'', JStr ''Oslo'')],
                                         [(''id'', JNum 3), (''city'', JStr ''Oslo'')]]))])) page_ready)
       = [''Found 2 duplicate entries'']
   \<and> previewTable (findDuplicates (Json (JObj [(''count'', JNum 2),
        (''duplicates'', JArr (map JObj [[(''id'', JNum 1), (''city'', JStr ''Oslo'')],
                                         [(''id'', JNum 3), (''city'', JStr ''Oslo'')]]))])) page_ready)
       = [Element ''thead'' [Element ''tr'' [Element ''th'' [Text ''id''], Element ''th'' [Text ''city'']]],
          Element ''tbody''
            [Element ''tr'' [Element ''td'' [Text ''1''], Element ''td'' [Text ''Oslo'']],
             Element ''tr'' [Element ''td'' [Text ''3''], Element ''td'' [Text ''Oslo'']]]]"
proof -
  let ?r = "[(''id'', JNum 1), (''city'', JStr ''Oslo'')]"
  let ?rs = "[[(''id'', JNum 3), (''city'', JStr ''Oslo'')]]"
  let ?d = "JObj [(''count'', JNum 2), (''duplicates'', JArr (map JObj (?r # ?rs)))]"
  have h1: "truthy (currentData page_ready)"
    by (simp add: page_ready_eq sample_upload_def)
  have h2: "get_prop ''error'' ?d = Inr JUndefined" by simp
  have h3: "\<not> truthy JUndefined" by simp
  have h4: "get_prop ''count'' ?d = Inr (JNum 2)" by simp
  have h5: "get_prop ''duplicates'' ?d = Inr (JArr (map JObj (?r # ?rs)))" by simp
  show ?thesis
    using h1 findDuplicates_renders_duplicates [OF h1 h2 h3 h4 h5]
    by (simp add: page_ready_eq header_cell_def body_cell_def element_with_text_def
        nullable_DOMString_def show_int_def show_nat_digit)
qed

lemma uploadFile_renders_reply:
  assumes "fileInput_files s = f # fs"
    and "get_prop ''error'' d = Inr err" and "\<not> truthy err"
    and "get_prop ''filename'' d = Inr fn"
    and "get_prop ''stats'' d = Inr st"
    and "get_prop ''rows'' st = Inr rows"
    and "get_prop ''columns'' st = Inr cols"
    and "get_prop ''duplicates'' st = Inr dup"
    and "get_prop ''columns'' d = Inr (JArr cs)"
    and "get_prop ''preview'' d = Inr (JArr (map JObj (r # rs)))"
  shows "uploadFile (Json d) s =
       s\<lparr>requests := requests s @ [upload_request f],
         currentData := d,
         filename_text := nullable_DOMString fn,
         dimensions_text := ToString rows @ '' rows '' @ [CHR 0xD7] @ '' '' @ ToString cols @ '' columns'',
         dupeCount_text := nullable_DOMString dup,
         dupeColumn := \<lparr>sel_options = map new_option cs,
                        sel_selected = (if cs = [] then None else Some 0)\<rparr>,
         previewTable :=
           [Element ''thead'' [Element ''tr'' (map header_cell (map fst r))],
            Element ''tbody'' (map (\<lambda>r. Element ''tr'' (map body_cell (map snd r))) (r # rs))],
         resultsSection_display := ''block''\<rparr>"
  unfolding uploadFile_after_checks [OF assms]
  by (simp add: try_catch_def seq_def displayPreview_records_Cons assign_def)

lemma uploadFile_renders_reply_witness:
  "uploadFile (Json sample_upload) (page_loaded\<lparr>fileInput_files := [File ''sales.csv'']\<rparr>) =
    \<lparr>fileInput_files = [File ''sales.csv''], currentData = sample_upload,
     filename_text = ''sales.csv'',
     dimensions_text = ''3 rows '' @ [CHR 0xD7] @ '' 2 columns'',
     dupeCount_text = ''1'',
     dupeColumn = \<lparr>sel_options = [\<lparr>opt_value = ''id'', opt_textContent = ''id''\<rparr>,
                                  \<lparr>opt_value = ''city'', opt_textContent = ''city''\<rparr>],
                   sel_selected = Some 0\<rparr>,
     previewTable =
       [Element ''thead'' [Element ''tr'' [Element ''th'' [Text ''id''], Element ''th'' [Text ''city'']]],
        Element ''tbody''
          [Element ''tr'' [Element ''td'' [Text ''1''], Element ''td'' [Text ''Oslo'']],
           Element ''tr'' [Element ''td'' [Text ''2''], Element ''td'' [Text ''Rome'']],
           Element ''tr'' [Element ''td'' [Text ''3''], Element ''td'' [Text ''Oslo'']]]],
     resultsSection_display = ''block'', alerts = [], console = [],
     requests = [upload_request (File ''sales.csv'')]\<rparr>"
proof -
  let ?s = "page_loaded\<lparr>fileInput_files := [File ''sales.csv'']\<rparr>"
  let ?st = "JObj [(''rows'', JNum 3), (''columns'', JNum 2), (''duplicates'', JNum 1)]"
  let ?r = "[(''id'', JNum 1), (''city'', JStr ''Oslo'')]"
  let ?rs = "[[(''id'', JNum 2), (''city'', JStr ''Rome'')], [(''id'', JNum 3), (''city'', JStr ''Oslo'')]]"
  have h1: "fileInput_files ?s = File ''sales.csv'' # []" by simp
  have h2: "get_prop ''error'' sample_upload = Inr JUndefined" by (simp add: sample_upload_def)
  have h3: "\<not> truthy JUndefined" by simp
  have h4: "get_prop ''filename'' sample_upload = Inr (JStr ''sales.csv'')"
    by (simp add: sample_upload_def)
  have h5: "get_prop ''stats'' sample_upload = Inr ?st" by (simp add: sample_upload_def)
  have h6: "get_prop ''rows'' ?st = Inr (JNum 3)" by simp
  have h7: "get_prop ''columns'' ?st = Inr (JNum 2)" by simp
  have h8: "get_prop ''duplicates'' ?st = Inr (JNum 1)" by simp
  have h9: "get_prop ''columns'' sample_upload = Inr (JArr [JStr ''id'', JStr ''city''])"
    by (simp add: sample_upload_def)
  have h10: "get_prop ''preview'' sample_upload = Inr (JArr (map JObj (?r # ?rs)))"
    by (simp add: sample_upload_def)
  show ?thesis
    using uploadFile_renders_reply [OF h1 h2 h3 h4 h5 h6 h7 h8 h9 h10]
    by (simp add: page_loaded_def new_option_def DOMString_def nullable_DOMString_def
        header_cell_def body_cell_def element_with_text_def show_int_def show_nat_digit)
qed

section \<open>The claims of the specification\<close>

text \<open>
  Claim C1, as the code has it. A find-duplicates invocation fails when its
  \<^verbatim>\<open>try\<close> block throws \<open>e\<close>. Every failing invocation ends with the alert
  \<^verbatim>\<open>Error finding duplicates: \<close> followed by the message of \<open>e\<close>. When the failure is a
  rejected \<^verbatim>\<open>fetch\<close>, a body that is not JSON, or a truthy \<^verbatim>\<open>error\<close> field, that alert is
  the only one and the preview table keeps its content.

  The claim also promises an untouched table when rendering faults. That part fails:
  \<^verbatim>\<open>displayPreview\<close> empties the table before it reads the first row, so the reply
  \<^verbatim>\<open>{count: 0, duplicates: []}\<close> leaves the table empty (third theorem below).
\<close>

theorem findDuplicates_failure:
  assumes "truthy (currentData s)"
  shows "(resp = Rejected e \<or> resp = BadJson e
           \<or> (\<exists>d err. resp = Json d \<and> get_prop ''error'' d = Inr err \<and> truthy err
                        \<and> e = Exn ''Error'' (ToString err))
          \<longrightarrow> previewTable (findDuplicates resp s) = previewTable s
            \<and> alerts (findDuplicates resp s)
                = alerts s @ [''Error finding duplicates: '' @ message e])
       \<and> (fst (findDuplicates_try (select_value (dupeColumn s)) resp s) = Some e
          \<longrightarrow> (\<exists>shown. alerts (findDuplicates resp s)
                = shown @ [''Error finding duplicates: '' @ message e]))"
proof (intro conjI impI)
  assume early: "resp = Rejected e \<or> resp = BadJson e
           \<or> (\<exists>d err. resp = Json d \<and> get_prop ''error'' d = Inr err \<and> truthy err
                        \<and> e = Exn ''Error'' (ToString err))"
  from findDuplicates_early_failure [OF assms early]
  obtain p where "findDuplicates resp s =
           s\<lparr>requests := requests s @ [duplicates_request p (select_value (dupeColumn s))],
             console := console s @ [e],
             alerts := alerts s @ [''Error finding duplicates: '' @ message e]\<rparr>" ..
  then show "previewTable (findDuplicates resp s) = previewTable s"
    and "alerts (findDuplicates resp s) = alerts s @ [''Error finding duplicates: '' @ message e]"
    by simp_all
next
  assume thrown: "fst (findDuplicates_try (select_value (dupeColumn s)) resp s) = Some e"
  obtain s' where "findDuplicates_try (select_value (dupeColumn s)) resp s = (Some e, s')"
    using thrown by (cases "findDuplicates_try (select_value (dupeColumn s)) resp s") simp
  with assms have "alerts (findDuplicates resp s)
      = alerts s' @ [''Error finding duplicates: '' @ message e]"
    by (simp add: findDuplicates_def try_catch_def alert_def console_error_def)
  then show "\<exists>shown. alerts (findDuplicates resp s)
      = shown @ [''Error finding duplicates: '' @ message e]" by (rule exI [of _ "alerts s'"])
qed

theorem findDuplicates_failure_witness:
  "truthy (currentData page_ready)
   \<and> get_prop ''error'' (JObj [(''error'', JStr ''Column not found'')]) = Inr (JStr ''Column not found'')
   \<and> truthy (JStr ''Column not found'')
   \<and> fst (findDuplicates_try (select_value (dupeColumn page_ready))
            (Json (JObj [(''error'', JStr ''Column not found'')])) page_ready)
       = Some (Exn ''Error'' ''Column not found'')
   \<and> previewTable (findDuplicates (Json (JObj [(''error'', JStr ''Column not found'')])) page_ready)
       = previewTable page_ready
   \<and> alerts (findDuplicates (Json (JObj [(''error'', JStr ''Column not found'')])) page_ready)
       = alerts page_ready @ [''Error finding duplicates: Column not found'']
   \<and> (\<exists>shown. alerts (findDuplicates (Json (JObj [(''error'', JStr ''Column not found'')])) page_ready)
       = shown @ [''Error finding duplicates: Column not found''])"
proof -
  let ?d = "JObj [(''error'', JStr ''Column not found'')]"
  let ?e = "Exn ''Error'' ''Column not found''"
  have h: "truthy (currentData page_ready)"
    by (simp add: page_ready_eq sample_upload_def)
  have g: "get_prop ''error'' ?d = Inr (JStr ''Column not found'')" by simp
  have t: "truthy (JStr ''Column not found'')" by simp
  have early: "Json ?d = Rejected ?e \<or> Json ?d = BadJson ?e
           \<or> (\<exists>d err. Json ?d = Json d \<and> get_prop ''error'' d = Inr err \<and> truthy err
                        \<and> ?e = Exn ''Error'' (ToString err))"
    by simp
  have thrown: "fst (findDuplicates_try (select_value (dupeColumn page_ready)) (Json ?d) page_ready)
       = Some ?e"
    by (simp add: findDuplicates_try_def page_ready_eq sample_upload_def await_json_def
        check_error_def effs)
  from findDuplicates_failure [OF h, of "Json ?d" ?e] early thrown
  have "previewTable (findDuplicates (Json ?d) page_ready) = previewTable page_ready
        \<and> alerts (findDuplicates (Json ?d) page_ready)
            = alerts page_ready @ [''Error finding duplicates: '' @ message ?e]"
    and "\<exists>shown. alerts (findDuplicates (Json ?d) page_ready)
            = shown @ [''Error finding duplicates: '' @ message ?e]"
    by blast+
  with h g t thrown show ?thesis by simp
qed

theorem findDuplicates_render_fault_clears_table:
  "truthy (currentData page_ready)
   \<and> fst (findDuplicates_try (select_value (dupeColumn page_ready))
            (Json (JObj [(''count'', JNum 0), (''duplicates'', JArr [])])) page_ready)
       = Some (Exn ''TypeError'' ''Cannot convert undefined or null to object'')
   \<and> previewTable (findDuplicates (Json (JObj [(''count'', JNum 0), (''duplicates'', JArr [])])) page_ready)
       \<noteq> previewTable page_ready"
proof -
  have "fst (findDuplicates_try (select_value (dupeColumn page_ready))
            (Json (JObj [(''count'', JNum 0), (''duplicates'', JArr [])])) page_ready)
       = Some (Exn ''TypeError'' ''Cannot convert undefined or null to object'')"
    by (simp add: findDuplicates_try_def page_ready_eq sample_upload_def await_json_def
        check_error_def effs displayPreview_nil cannot_convert_def)
  moreover have "previewTable (findDuplicates (Json (JObj [(''count'', JNum 0), (''duplicates'', JArr [])])) page_ready) = []"
    by (simp add: findDuplicates_empty_list)
  moreover have "previewTable page_ready \<noteq> []"
    by (simp add: page_ready_eq)
  moreover have "truthy (currentData page_ready)"
    by (simp add: page_ready_eq sample_upload_def)
  ultimately show ?thesis by simp
qed

text \<open>
  Claim C2. With a file selected, an upload reply whose \<^verbatim>\<open>error\<close> field is truthy
  leaves \<^verbatim>\<open>currentData\<close>, the column selector and the \<^verbatim>\<open>display\<close> style of the results
  section as they were, and shows one alert: \<^verbatim>\<open>Error processing file: \<close> followed by
  \<^verbatim>\<open>String(data.error)\<close>.
\<close>

theorem uploadFile_error_field:
  assumes "fileInput_files s = f # fs" and "get_prop ''error'' d = Inr err" and "truthy err"
  shows "currentData (uploadFile (Json d) s) = currentData s
       \<and> dupeColumn (uploadFile (Json d) s) = dupeColumn s
       \<and> resultsSection_display (uploadFile (Json d) s) = resultsSection_display s
       \<and> alerts (uploadFile (Json d) s) = alerts s @ [''Error processing file: '' @ ToString err]"
  by (simp add: uploadFile_error_state [OF assms])

theorem uploadFile_error_field_witness:
  "fileInput_files (page_loaded\<lparr>fileInput_files := [File ''notes.txt'']\<rparr>) = File ''notes.txt'' # []
   \<and> get_prop ''error'' (JObj [(''error'', JStr ''Unsupported file type'')])
       = Inr (JStr ''Unsupported file type'')
   \<and> truthy (JStr ''Unsupported file type'')
   \<and> currentData (uploadFile (Json (JObj [(''error'', JStr ''Unsupported file type'')]))
         (page_loaded\<lparr>fileInput_files := [File ''notes.txt'']\<rparr>)) = JNull
   \<and> sel_options (dupeColumn (uploadFile (Json (JObj [(''error'', JStr ''Unsupported file type'')]))
         (page_loaded\<lparr>fileInput_files := [File ''notes.txt'']\<rparr>))) = []
   \<and> resultsSection_display (uploadFile (Json (JObj [(''error'', JStr ''Unsupported file type'')]))
         (page_loaded\<lparr>fileInput_files := [File ''notes.txt'']\<rparr>)) = ''none''
   \<and> alerts (uploadFile (Json (JObj [(''error'', JStr ''Unsupported file type'')]))
         (page_loaded\<lparr>fileInput_files := [File ''notes.txt'']\<rparr>))
       = [''Error processing file: Unsupported file type'']"
proof -
  let ?s = "page_loaded\<lparr>fileInput_files := [File ''notes.txt'']\<rparr>"
  let ?d = "JObj [(''error'', JStr ''Unsupported file type'')]"
  have h1: "fileInput_files ?s = File ''notes.txt'' # []" by simp
  have h2: "get_prop ''error'' ?d = Inr (JStr ''Unsupported file type'')" by simp
  have h3: "truthy (JStr ''Unsupported file type'')" by simp
  show ?thesis
    using h1 h2 h3 uploadFile_error_field [OF h1 h2 h3]
    by (simp add: page_loaded_def)
qed

text \<open>
  Claim C3. Rendering an empty array does not complete: \<^verbatim>\<open>previewData[0]\<close> is
  undefined, \<^verbatim>\<open>Object.keys(undefined)\<close> throws a \<^verbatim>\<open>TypeError\<close>, and \<^verbatim>\<open>displayPreview\<close> ends
  with that exception, the table already emptied.
\<close>

theorem displayPreview_empty_faults:
  "index0 (JArr []) = Inr JUndefined
   \<and> Object_keys JUndefined = Inl (Exn ''TypeError'' ''Cannot convert undefined or null to object'')
   \<and> displayPreview (JArr []) s =
       (Some (Exn ''TypeError'' ''Cannot convert undefined or null to object''),
        s\<lparr>previewTable := []\<rparr>)"
  by (simp add: displayPreview_def effs cannot_convert_def)

text \<open>
  Claim C4, as the code has it. Rendering a non-empty sequence \<open>r # rs\<close> of records
  completes and replaces the table's content, whatever it was, by a \<^verbatim>\<open>thead\<close> whose row
  has one \<^verbatim>\<open>th\<close> per key of \<open>r\<close>, in order and with the key as its text, and a \<^verbatim>\<open>tbody\<close>
  with one \<^verbatim>\<open>tr\<close> per record, which has one \<^verbatim>\<open>td\<close> per value of the record, in order.
  The text of a cell is \<^verbatim>\<open>String(value)\<close>, except for null (and undefined), where the
  cell is empty.

  The claim says \<^verbatim>\<open>String(value)\<close> for every value. It fails for null:
  \<^verbatim>\<open>td.textContent = null\<close> gives the cell no text, and \<^verbatim>\<open>String(null)\<close> is \<^verbatim>\<open>null\<close>
  (second theorem below).
\<close>

theorem displayPreview_renders:
  "displayPreview (JArr (map JObj (r # rs))) s =
     (None, s\<lparr>previewTable :=
        [Element ''thead'' [Element ''tr'' (map header_cell (map fst r))],
         Element ''tbody'' (map (\<lambda>r. Element ''tr'' (map body_cell (map snd r))) (r # rs))]\<rparr>)
   \<and> map textContent (map header_cell (map fst r)) = map fst r
   \<and> length (map header_cell (map fst r)) = length r
   \<and> length (map (\<lambda>r. Element ''tr'' (map body_cell (map snd r))) (r # rs)) = length (r # rs)
   \<and> textContent (body_cell v) = (if v = JNull \<or> v = JUndefined then [] else ToString v)"
proof -
  have "map textContent (map header_cell (map fst r)) = map fst r"
    by (simp add: header_cell_def textContent_element_with_text comp_def)
  moreover have "textContent (body_cell v) = (if v = JNull \<or> v = JUndefined then [] else ToString v)"
    by (auto simp add: body_cell_def textContent_element_with_text nullable_DOMString_def)
  ultimately show ?thesis
    using displayPreview_records [of r rs s] by simp
qed

theorem displayPreview_null_cell:
  "displayPreview (JArr [JObj [(''city'', JNull)]]) page_loaded =
     (None, page_loaded\<lparr>previewTable :=
        [Element ''thead'' [Element ''tr'' [Element ''th'' [Text ''city'']]],
         Element ''tbody'' [Element ''tr'' [Element ''td'' []]]]\<rparr>)
   \<and> textContent (Element ''td'' []) \<noteq> ToString JNull"
  by (simp add: displayPreview_def effs forEach_row_def table_appendChild_def header_cell_def
      body_cell_def element_with_text_def nullable_DOMString_def)

text \<open>
  Claim C5. With no file selected, \<^verbatim>\<open>uploadFile\<close> shows the alert
  \<^verbatim>\<open>Please select a file first\<close> and changes nothing else: no request is issued.
\<close>

theorem uploadFile_no_file:
  "fileInput_files s = [] \<Longrightarrow>
     uploadFile resp s = s\<lparr>alerts := alerts s @ [''Please select a file first'']\<rparr>
     \<and> requests (uploadFile resp s) = requests s"
  by (simp add: uploadFile_def alert_def)

theorem uploadFile_no_file_witness:
  "fileInput_files page_loaded = []
   \<and> uploadFile (Json sample_upload) page_loaded =
       page_loaded\<lparr>alerts := alerts page_loaded @ [''Please select a file first'']\<rparr>
   \<and> requests (uploadFile (Json sample_upload) page_loaded) = requests page_loaded"
proof -
  have h: "fileInput_files page_loaded = []" by (simp add: page_loaded_def)
  show ?thesis using h uploadFile_no_file [OF h, of "Json sample_upload"] by simp
qed

text \<open>
  Claim C6. While \<^verbatim>\<open>currentData\<close> is null, \<^verbatim>\<open>findDuplicates\<close> leaves the page as
  it is: no request, no alert, no change to the document.
\<close>

theorem findDuplicates_before_upload:
  "currentData s = JNull \<Longrightarrow> findDuplicates resp s = s"
  by (simp add: findDuplicates_def)

theorem findDuplicates_before_upload_witness:
  "currentData page_loaded = JNull
   \<and> findDuplicates (Json (JObj [(''count'', JNum 0), (''duplicates'', JArr [])])) page_loaded
       = page_loaded"
proof -
  have h: "currentData page_loaded = JNull" by (simp add: page_loaded_def)
  show ?thesis
    using h findDuplicates_before_upload [OF h, of "Json (JObj [(''count'', JNum 0), (''duplicates'', JArr [])])"]
    by simp
qed

text \<open>
  Claim C7. When \<^verbatim>\<open>currentData\<close> holds a reply of the upload endpoint (a truthy value
  that \<^verbatim>\<open>JSON.parse\<close> built), \<^verbatim>\<open>findDuplicates\<close> issues exactly one request, whatever
  the reply to it: a POST to \<^verbatim>\<open>/data/find_duplicates\<close> with a JSON body whose \<^verbatim>\<open>data\<close> is
  \<^verbatim>\<open>currentData.preview\<close> and whose \<^verbatim>\<open>column\<close> is the selector's value.
\<close>

theorem findDuplicates_request:
  assumes "truthy (currentData s)" and "is_json (currentData s)"
  shows "\<exists>body. requests (findDuplicates resp s) =
            requests s @ [\<lparr>req_url = ''/data/find_duplicates'', req_method = ''POST'',
                           req_headers = [(''Content-Type'', ''application/json'')],
                           req_body = JsonText body\<rparr>]
         \<and> get_prop ''data'' body = get_prop ''preview'' (currentData s)
         \<and> get_prop ''column'' body = Inr (JStr (select_value (dupeColumn s)))"
proof -
  from assms(1) obtain p where p: "get_prop ''preview'' (currentData s) = Inr p"
    using truthy_get_prop by blast
  with assms(2) have "p = JUndefined \<or> is_json p"
    by (rule get_prop_is_json)
  note body = stringified_body [OF this, of "select_value (dupeColumn s)"]
  have "requests (findDuplicates resp s) =
          requests s @ [duplicates_request p (select_value (dupeColumn s))]"
    using assms(1) by (simp add: findDuplicates_def try_catch_requests findDuplicates_try_requests [OF p])
  with body p show ?thesis
    by (simp add: duplicates_request_def)
qed

theorem findDuplicates_request_witness:
  "truthy (currentData page_ready) \<and> is_json (currentData page_ready)
   \<and> (\<exists>body. requests (findDuplicates (Json (JObj [(''count'', JNum 0), (''duplicates'', JArr [])])) page_ready) =
            requests page_ready @ [\<lparr>req_url = ''/data/find_duplicates'', req_method = ''POST'',
                           req_headers = [(''Content-Type'', ''application/json'')],
                           req_body = JsonText body\<rparr>]
         \<and> get_prop ''data'' body = get_prop ''preview'' (currentData page_ready)
         \<and> get_prop ''column'' body = Inr (JStr (select_value (dupeColumn page_ready))))"
proof -
  have h1: "truthy (currentData page_ready)"
    by (simp add: page_ready_eq sample_upload_def)
  have h2: "is_json (currentData page_ready)"
    by (simp add: page_ready_eq sample_upload_def)
  show ?thesis
    by (rule conjI [OF h1 conjI [OF h2 findDuplicates_request [OF h1 h2]]])
qed

text \<open>
  Claim C8 at the reply \<^verbatim>\<open>{count: 0, duplicates: []}\<close>, on the page after the sample
  upload. The alert \<^verbatim>\<open>Found 0 duplicate entries\<close> is shown, the table is emptied, and
  then the rendering faults: an error is logged and a second alert reports it. For a
  non-empty list of records the handler does what the claim says
  (\<open>findDuplicates_renders_duplicates\<close>).
\<close>

theorem findDuplicates_no_duplicates_reports_error:
  "alerts (findDuplicates (Json (JObj [(''count'', JNum 0), (''duplicates'', JArr [])])) page_ready)
     = [''Found 0 duplicate entries'',
        ''Error finding duplicates: Cannot convert undefined or null to object'']
   \<and> previewTable (findDuplicates (Json (JObj [(''count'', JNum 0), (''duplicates'', JArr [])])) page_ready)
     = []
   \<and> console (findDuplicates (Json (JObj [(''count'', JNum 0), (''duplicates'', JArr [])])) page_ready)
     = [Exn ''TypeError'' ''Cannot convert undefined or null to object'']"
  by (simp add: findDuplicates_empty_list)

text \<open>
  Claim C9, as the code has it. For column names \<open>names\<close>, \<^verbatim>\<open>populateColumnSelect\<close>
  completes and leaves the selector with exactly one option per name, in order; the
  options it had before are gone. The value of each option is the name. Its label is the
  name with ASCII whitespace stripped and collapsed, which is the name itself when the
  name is made of words separated by single spaces.

  The claim says the label equals the name for every name. It fails for a name with
  whitespace at an end: the option built for \<^verbatim>\<open>' unit price '\<close> has that value and the
  label \<^verbatim>\<open>'unit price'\<close> (third theorem below).
\<close>

theorem populateColumnSelect_options:
  "fst (populateColumnSelect (JArr (map JStr names)) s) = None
   \<and> sel_options (dupeColumn (snd (populateColumnSelect (JArr (map JStr names)) s)))
       = map (\<lambda>n. \<lparr>opt_value = n, opt_textContent = n\<rparr>) names
   \<and> length (sel_options (dupeColumn (snd (populateColumnSelect (JArr (map JStr names)) s))))
       = length names
   \<and> map opt_value (sel_options (dupeColumn (snd (populateColumnSelect (JArr (map JStr names)) s))))
       = names
   \<and> map option_label (sel_options (dupeColumn (snd (populateColumnSelect (JArr (map JStr names)) s))))
       = map strip_and_collapse names
   \<and> (list_all (list_all is_word) wss \<longrightarrow>
        map option_label (sel_options (dupeColumn (snd
          (populateColumnSelect (JArr (map (\<lambda>ws. JStr (join '' '' ws)) wss)) s))))
        = map (join '' '') wss)"
proof -
  have opts: "\<And>ns. sel_options (dupeColumn (snd (populateColumnSelect (JArr (map JStr ns)) s)))
       = map (\<lambda>n. \<lparr>opt_value = n, opt_textContent = n\<rparr>) ns"
    by (simp add: populateColumnSelect_array new_option_string comp_def)
  have labels: "\<And>ns. map option_label
         (sel_options (dupeColumn (snd (populateColumnSelect (JArr (map JStr ns)) s))))
       = map strip_and_collapse ns"
    by (simp add: opts option_label_def comp_def)
  have words: "map strip_and_collapse (map (join '' '') wss) = map (join '' '') wss"
    if "list_all (list_all is_word) wss"
    using that by (induction wss) (simp_all add: strip_and_collapse_words)
  have tidy: "list_all (list_all is_word) wss \<longrightarrow>
        map option_label (sel_options (dupeColumn (snd
          (populateColumnSelect (JArr (map (\<lambda>ws. JStr (join '' '' ws)) wss)) s))))
        = map (join '' '') wss"
  proof
    assume w: "list_all (list_all is_word) wss"
    have m: "map (\<lambda>ws. JStr (join '' '' ws)) wss = map JStr (map (join '' '') wss)"
      by (simp add: comp_def)
    show "map option_label (sel_options (dupeColumn (snd
          (populateColumnSelect (JArr (map (\<lambda>ws. JStr (join '' '' ws)) wss)) s))))
        = map (join '' '') wss"
      unfolding m labels words [OF w] ..
  qed
  have "fst (populateColumnSelect (JArr (map JStr names)) s) = None"
    by (simp add: populateColumnSelect_array)
  with opts [of names] labels [of names] tidy show ?thesis
    by (simp add: comp_def)
qed

theorem populateColumnSelect_options_witness:
  "list_all (list_all is_word) [[''id''], [''unit'', ''price'']]
   \<and> map option_label (sel_options (dupeColumn (snd
        (populateColumnSelect (JArr [JStr ''id'', JStr ''unit price'']) page_loaded))))
       = [''id'', ''unit price'']"
proof -
  have h: "list_all (list_all is_word) [[''id''], [''unit'', ''price'']]"
    by (simp add: is_word_def ascii_whitespace_def)
  from populateColumnSelect_options [of "[]" page_loaded "[[''id''], [''unit'', ''price'']]"] h
  have "map option_label (sel_options (dupeColumn (snd
          (populateColumnSelect
             (JArr (map (\<lambda>ws. JStr (join '' '' ws)) [[''id''], [''unit'', ''price'']]))
             page_loaded))))
        = map (join '' '') [[''id''], [''unit'', ''price'']]"
    by blast
  with h show ?thesis by simp
qed

theorem populateColumnSelect_label_stripped:
  "map opt_value (sel_options (dupeColumn (snd
        (populateColumnSelect (JArr [JStr '' unit price '']) page_loaded))))
     = ['' unit price '']
   \<and> map option_label (sel_options (dupeColumn (snd
        (populateColumnSelect (JArr [JStr '' unit price '']) page_loaded))))
     = [''unit price'']
   \<and> ''unit price'' \<noteq> '' unit price ''"
  by (simp add: populateColumnSelect_def effs select_appendChild_def new_option_def
      DOMString_def nullable_DOMString_def option_label_def strip_and_collapse_def
      strip_whitespace_def ascii_whitespace_def)

text \<open>
  Claim C10. With a file selected, a reply of the upload shape (no \<^verbatim>\<open>error\<close> field,
  \<^verbatim>\<open>stats\<close> an object, \<^verbatim>\<open>columns\<close> an array) whose \<^verbatim>\<open>preview\<close> is the empty array sets
  \<^verbatim>\<open>currentData\<close>, writes the three display texts, fills the selector and empties the
  table; then the rendering faults, the error is logged, the alert
  \<^verbatim>\<open>Error processing file: \<close> with the engine's message is shown, and the results
  section keeps its \<^verbatim>\<open>display\<close> style.
\<close>

theorem uploadFile_empty_preview:
  assumes "fileInput_files s = f # fs"
    and "get_prop ''error'' d = Inr JUndefined"
    and "get_prop ''filename'' d = Inr fn"
    and "get_prop ''stats'' d = Inr st"
    and "get_prop ''rows'' st = Inr rows"
    and "get_prop ''columns'' st = Inr cols"
    and "get_prop ''duplicates'' st = Inr dup"
    and "get_prop ''columns'' d = Inr (JArr cs)"
    and "get_prop ''preview'' d = Inr (JArr [])"
  shows "currentData (uploadFile (Json d) s) = d
     \<and> filename_text (uploadFile (Json d) s) = nullable_DOMString fn
     \<and> dimensions_text (uploadFile (Json d) s)
         = ToString rows @ '' rows '' @ [CHR 0xD7] @ '' '' @ ToString cols @ '' columns''
     \<and> dupeCount_text (uploadFile (Json d) s) = nullable_DOMString dup
     \<and> sel_options (dupeColumn (uploadFile (Json d) s)) = map new_option cs
     \<and> previewTable (uploadFile (Json d) s) = []
     \<and> console (uploadFile (Json d) s)
         = console s @ [Exn ''TypeError'' ''Cannot convert undefined or null to object'']
     \<and> alerts (uploadFile (Json d) s)
         = alerts s @ [''Error processing file: Cannot convert undefined or null to object'']
     \<and> resultsSection_display (uploadFile (Json d) s) = resultsSection_display s"
  by (simp add: uploadFile_empty_preview_state [OF assms])

theorem uploadFile_empty_preview_witness:
  "fileInput_files (page_loaded\<lparr>fileInput_files := [File ''empty.csv'']\<rparr>) = File ''empty.csv'' # []
   \<and> get_prop ''error'' sample_empty_upload = Inr JUndefined
   \<and> get_prop ''filename'' sample_empty_upload = Inr (JStr ''empty.csv'')
   \<and> get_prop ''stats'' sample_empty_upload
        = Inr (JObj [(''rows'', JNum 0), (''columns'', JNum 2), (''duplicates'', JNum 0)])
   \<and> get_prop ''columns'' sample_empty_upload = Inr (JArr [JStr ''id'', JStr ''city''])
   \<and> get_prop ''preview'' sample_empty_upload = Inr (JArr [])
   \<and> currentData (uploadFile (Json sample_empty_upload)
         (page_loaded\<lparr>fileInput_files := [File ''empty.csv'']\<rparr>)) = sample_empty_upload
   \<and> filename_text (uploadFile (Json sample_empty_upload)
         (page_loaded\<lparr>fileInput_files := [File ''empty.csv'']\<rparr>)) = ''empty.csv''
   \<and> dimensions_text (uploadFile (Json sample_empty_upload)
         (page_loaded\<lparr>fileInput_files := [File ''empty.csv'']\<rparr>))
       = ''0 rows '' @ [CHR 0xD7] @ '' 2 columns''
   \<and> dupeCount_text (uploadFile (Json sample_empty_upload)
         (page_loaded\<lparr>fileInput_files := [File ''empty.csv'']\<rparr>)) = ''0''
   \<and> sel_options (dupeColumn (uploadFile (Json sample_empty_upload)
         (page_loaded\<lparr>fileInput_files := [File ''empty.csv'']\<rparr>)))
       = [\<lparr>opt_value = ''id'', opt_textContent = ''id''\<rparr>, \<lparr>opt_value = ''city'', opt_textContent = ''city''\<rparr>]
   \<and> previewTable (uploadFile (Json sample_empty_upload)
         (page_loaded\<lparr>fileInput_files := [File ''empty.csv'']\<rparr>)) = []
   \<and> console (uploadFile (Json sample_empty_upload)
         (page_loaded\<lparr>fileInput_files := [File ''empty.csv'']\<rparr>))
       = [Exn ''TypeError'' ''Cannot convert undefined or null to object'']
   \<and> alerts (uploadFile (Json sample_empty_upload)
         (page_loaded\<lparr>fileInput_files := [File ''empty.csv'']\<rparr>))
       = [''Error processing file: Cannot convert undefined or null to object'']
   \<and> resultsSection_display (uploadFile (Json sample_empty_upload)
         (page_loaded\<lparr>fileInput_files := [File ''empty.csv'']\<rparr>)) = ''none''"
proof -
  let ?s = "page_loaded\<lparr>fileInput_files := [File ''empty.csv'']\<rparr>"
  let ?st = "JObj [(''rows'', JNum 0), (''columns'', JNum 2), (''duplicates'', JNum 0)]"
  have h1: "fileInput_files ?s = File ''empty.csv'' # []" by simp
  have h2: "get_prop ''error'' sample_empty_upload = Inr JUndefined"
    by (simp add: sample_empty_upload_def)
  have h3: "get_prop ''filename'' sample_empty_upload = Inr (JStr ''empty.csv'')"
    by (simp add: sample_empty_upload_def)
  have h4: "get_prop ''stats'' sample_empty_upload = Inr ?st"
    by (simp add: sample_empty_upload_def)
  have h5: "get_prop ''rows'' ?st = Inr (JNum 0)" by simp
  have h6: "get_prop ''columns'' ?st = Inr (JNum 2)" by simp
  have h7: "get_prop ''duplicates'' ?st = Inr (JNum 0)" by simp
  have h8: "get_prop ''columns'' sample_empty_upload = Inr (JArr [JStr ''id'', JStr ''city''])"
    by (simp add: sample_empty_upload_def)
  have h9: "get_prop ''preview'' sample_empty_upload = Inr (JArr [])"
    by (simp add: sample_empty_upload_def)
  show ?thesis
    using h1 h2 h3 h4 h8 h9 uploadFile_empty_preview [OF h1 h2 h3 h4 h5 h6 h7 h8 h9]
    by (simp add: page_loaded_def new_option_def DOMString_def nullable_DOMString_def
        show_int_def show_nat_digit)
qed

end
